theory Spec2Isabelle
  imports Complex_Main
begin

section \<open>A desktop calculator: the expression evaluator of \<^verbatim>\<open>calculator.py\<close>\<close>

text \<open>
  The program is one class, \<^verbatim>\<open>Calculator\<close>, whose only state in scope is the text of
  the display (\<^verbatim>\<open>display_var\<close>). The methods \<^verbatim>\<open>_negate\<close>, \<^verbatim>\<open>_percent\<close> and
  \<^verbatim>\<open>_calculate\<close> read the display, hand it to \<^verbatim>\<open>_safe_evaluate\<close>, and either write
  the formatted result back or show an error dialog. \<^verbatim>\<open>_safe_evaluate\<close> parses the
  text with Python's own parser (\<^verbatim>\<open>ast.parse\<close>) and walks the tree with the nested
  function \<^verbatim>\<open>_eval\<close>, which accepts a white list of node classes.

  Isabelle identifiers cannot start with an underscore, so \<^verbatim>\<open>_eval\<close> is \<open>eval\<close>,
  \<^verbatim>\<open>_safe_evaluate\<close> is \<open>safe_evaluate\<close>, and so on.
\<close>

subsection \<open>Exceptions\<close>

text \<open>
  The exceptions that the code raises, catches or lets through. \<^verbatim>\<open>ValueError\<close> carries
  its message, which is what the error dialog shows.
\<close>

datatype exn = SyntaxError | ValueError string | ZeroDivisionError | OverflowError

subsection \<open>Python's \<^verbatim>\<open>float\<close>: IEEE 754 binary64\<close>

text \<open>
  A double is a sign, a significand and an exponent. \<open>Finite s m e\<close> stands for
  \<open>(-1)\<^sup>s * m * 2\<^sup>e\<close> with \<open>0 \<le> m < 2\<^sup>5\<^sup>3\<close> and \<open>-1074 \<le> e \<le> 971\<close>; a normal
  number has \<open>2\<^sup>5\<^sup>2 \<le> m\<close>, a subnormal number and zero have \<open>e = -1074\<close>. Every double
  has exactly one such triple, so equality of triples is identity of doubles
  (\<open>0.0\<close> and \<open>-0.0\<close> are different doubles that compare equal in Python).
\<close>

datatype float = Finite bool int int | Infinity bool | NaN

definition zero :: "bool \<Rightarrow> float" where
  "zero s = Finite s 0 (- 1074)"

fun is_zero :: "float \<Rightarrow> bool" where
  "is_zero (Finite s m e) = (m = 0)"
| "is_zero _ = False"

fun is_finite :: "float \<Rightarrow> bool" where
  "is_finite (Finite s m e) = True"
| "is_finite _ = False"

text \<open>The doubles among the triples.\<close>

fun is_double :: "float \<Rightarrow> bool" where
  "is_double (Finite s m e) =
     (0 \<le> m \<and> m < 2 ^ 53 \<and> - 1074 \<le> e \<and> e \<le> 971 \<and> (e = - 1074 \<or> 2 ^ 52 \<le> m))"
| "is_double _ = True"



text \<open>
  Arithmetic is exact arithmetic followed by rounding to the nearest double, ties to the
  even significand. The exact value to round is a quotient \<open>n / d\<close> of integers.
\<close>

function bit_length :: "int \<Rightarrow> int" where
  \<comment> \<open>the number of binary digits of \<open>n\<close>\<close>
  "bit_length n = (if n \<le> 0 then 0 else 1 + bit_length (n div 2))"
  by pat_completeness auto
termination
  by (relation "measure nat") (auto simp: int_div_less_self)

definition shift :: "int \<Rightarrow> int \<Rightarrow> int" where
  \<comment> \<open>\<open>n * 2\<^sup>k\<close> for \<open>k \<ge> 0\<close>, \<open>n\<close> itself for \<open>k < 0\<close>\<close>
  "shift n k = n * 2 ^ nat k"

definition floor_log2 :: "int \<Rightarrow> int \<Rightarrow> int" where
  \<comment> \<open>\<open>\<lfloor>log\<^sub>2 (n / d)\<rfloor>\<close> for \<open>n, d > 0\<close>\<close>
  "floor_log2 n d =
     (let k = bit_length n - bit_length d
      in if shift d k \<le> shift n (- k) then k else k - 1)"

definition round_half_even :: "int \<Rightarrow> int \<Rightarrow> int" where
  \<comment> \<open>the integer nearest to \<open>n / d\<close>, for \<open>n \<ge> 0\<close> and \<open>d > 0\<close>\<close>
  "round_half_even n d =
     (let q = n div d; r = n mod d
      in if 2 * r < d then q else if d < 2 * r then q + 1 else if even q then q else q + 1)"

definition round_ratio :: "bool \<Rightarrow> int \<Rightarrow> int \<Rightarrow> float" where
  \<comment> \<open>the double nearest to \<open>(-1)\<^sup>s * n / d\<close>, for \<open>n \<ge> 0\<close> and \<open>d > 0\<close>\<close>
  "round_ratio s n d =
     (if n = 0 then zero s
      else let e = max (floor_log2 n d - 52) (- 1074);
               m = round_half_even (shift n (- e)) (shift d e)
           in if m = 2 ^ 53 then (if 971 < e + 1 then Infinity s else Finite s (2 ^ 52) (e + 1))
              else if 971 < e then Infinity s
              else Finite s m e)"

definition round_scaled :: "bool \<Rightarrow> int \<Rightarrow> int \<Rightarrow> float" where
  \<comment> \<open>the double nearest to \<open>(-1)\<^sup>s * n * 2\<^sup>e\<close>\<close>
  "round_scaled s n e = round_ratio s (shift n e) (shift 1 (- e))"

fun fneg :: "float \<Rightarrow> float" where
  "fneg (Finite s m e) = Finite (\<not> s) m e"
| "fneg (Infinity s) = Infinity (\<not> s)"
| "fneg NaN = NaN"

definition signed :: "bool \<Rightarrow> int \<Rightarrow> int" where
  "signed s m = (if s then - m else m)"

fun fadd :: "float \<Rightarrow> float \<Rightarrow> float" where
  "fadd (Finite s1 m1 e1) (Finite s2 m2 e2) =
     (let e = min e1 e2;
          t = signed s1 (shift m1 (e1 - e)) + signed s2 (shift m2 (e2 - e))
      in if t = 0 then zero (s1 \<and> s2) else round_scaled (t < 0) \<bar>t\<bar> e)"
| "fadd (Finite s1 m1 e1) (Infinity s2) = Infinity s2"
| "fadd (Infinity s1) (Finite s2 m2 e2) = Infinity s1"
| "fadd (Infinity s1) (Infinity s2) = (if s1 = s2 then Infinity s1 else NaN)"
| "fadd _ _ = NaN"

definition fsub :: "float \<Rightarrow> float \<Rightarrow> float" where
  "fsub x y = fadd x (fneg y)"

fun fmul :: "float \<Rightarrow> float \<Rightarrow> float" where
  "fmul (Finite s1 m1 e1) (Finite s2 m2 e2) =
     (if m1 = 0 \<or> m2 = 0 then zero (s1 \<noteq> s2) else round_scaled (s1 \<noteq> s2) (m1 * m2) (e1 + e2))"
| "fmul (Finite s1 m1 e1) (Infinity s2) = (if m1 = 0 then NaN else Infinity (s1 \<noteq> s2))"
| "fmul (Infinity s1) (Finite s2 m2 e2) = (if m2 = 0 then NaN else Infinity (s1 \<noteq> s2))"
| "fmul (Infinity s1) (Infinity s2) = Infinity (s1 \<noteq> s2)"
| "fmul _ _ = NaN"

fun fdiv :: "float \<Rightarrow> float \<Rightarrow> float" where
  "fdiv (Finite s1 m1 e1) (Finite s2 m2 e2) =
     (if m2 = 0 then (if m1 = 0 then NaN else Infinity (s1 \<noteq> s2))
      else if m1 = 0 then zero (s1 \<noteq> s2)
      else round_ratio (s1 \<noteq> s2) (shift m1 (e1 - e2)) (shift m2 (e2 - e1)))"
| "fdiv (Finite s1 m1 e1) (Infinity s2) = zero (s1 \<noteq> s2)"
| "fdiv (Infinity s1) (Finite s2 m2 e2) = Infinity (s1 \<noteq> s2)"
| "fdiv _ _ = NaN"

text \<open>
  Python's \<^verbatim>\<open>/\<close> on floats raises \<^verbatim>\<open>ZeroDivisionError\<close> when the divisor compares
  equal to zero, whatever the dividend; otherwise it is the IEEE division. Addition,
  subtraction and multiplication never raise: they overflow to an infinity.
\<close>

definition truediv :: "float \<Rightarrow> float \<Rightarrow> exn + float" where
  "truediv x y = (if is_zero y then Inl ZeroDivisionError else Inr (fdiv x y))"

text \<open>
  \<^verbatim>\<open>float(n)\<close> for an integer \<open>n\<close> rounds to the nearest double and raises
  \<^verbatim>\<open>OverflowError\<close> when that is out of range.
\<close>

definition float_of_int :: "int \<Rightarrow> exn + float" where
  "float_of_int n =
     (case round_ratio (n < 0) \<bar>n\<bar> 1 of
        Infinity s \<Rightarrow> Inl OverflowError
      | x \<Rightarrow> Inr x)"

text \<open>
  \<^verbatim>\<open>value.is_integer()\<close> and \<^verbatim>\<open>int(value)\<close>. The latter truncates towards zero; it
  raises \<^verbatim>\<open>OverflowError\<close> on an infinity and \<^verbatim>\<open>ValueError\<close> on a NaN.
\<close>

fun is_integer :: "float \<Rightarrow> bool" where
  "is_integer (Finite s m e) = (0 \<le> e \<or> m mod 2 ^ nat (- e) = 0)"
| "is_integer _ = False"

fun int_of_float :: "float \<Rightarrow> exn + int" where
  "int_of_float (Finite s m e) =
     Inr (signed s (if 0 \<le> e then m * 2 ^ nat e else m div 2 ^ nat (- e)))"
| "int_of_float (Infinity s) = Inl OverflowError"
| "int_of_float NaN = Inl (ValueError ''cannot convert float NaN to integer'')"

subsection \<open>The syntax trees of Python's \<^verbatim>\<open>ast\<close> module\<close>

text \<open>
  The node classes that \<^verbatim>\<open>_eval\<close> tests for, with the operator classes of
  \<^verbatim>\<open>ast.UnaryOp\<close> and \<^verbatim>\<open>ast.BinOp\<close> in full, and the other expression classes that the
  parser modelled below can produce. \<open>CBool\<close> is there because Python's \<^verbatim>\<open>bool\<close> is a
  subclass of \<^verbatim>\<open>int\<close>: \<^verbatim>\<open>isinstance(True, (int, float))\<close> holds.
\<close>

datatype pyvalue =
  CInt int | CFloat float | CBool bool | CStr string | CNone | CEllipsis

datatype unaryop = UAdd | USub | Not_op | Invert

datatype operator =
  Add | Sub | Mult | MatMult | Div | Mod_op | Pow | LShift | RShift
  | BitOr | BitXor | BitAnd | FloorDiv

datatype ast =
  Expression ast
  | Constant pyvalue
  | UnaryOp unaryop ast
  | BinOp ast operator ast
  | Name string
  | Attribute ast string
  | Call ast "ast list"
  | Tuple "ast list"

subsection \<open>\<^verbatim>\<open>_eval\<close>, the walk over the tree\<close>

text \<open>
  \<^verbatim>\<open>float(node.value)\<close> for the three kinds of value that pass the
  \<^verbatim>\<open>isinstance(node.value, (int, float))\<close> test.
\<close>

fun float_of_constant :: "pyvalue \<Rightarrow> exn + float" where
  "float_of_constant (CInt n) = float_of_int n"
| "float_of_constant (CBool b) = float_of_int (if b then 1 else 0)"
| "float_of_constant (CFloat x) = Inr x"
| "float_of_constant _ = Inl (ValueError ''Only numbers allowed'')"

text \<open>The two \<^verbatim>\<open>op_map\<close> dictionaries, on the operators that pass the tests before them.\<close>

fun unary_op_map :: "unaryop \<Rightarrow> (float \<Rightarrow> float) option" where
  "unary_op_map UAdd = Some (\<lambda>x. x)"
| "unary_op_map USub = Some fneg"
| "unary_op_map _ = None"

fun binary_op_map :: "operator \<Rightarrow> (float \<Rightarrow> float \<Rightarrow> exn + float) option" where
  "binary_op_map Add = Some (\<lambda>x y. Inr (fadd x y))"
| "binary_op_map Sub = Some (\<lambda>x y. Inr (fsub x y))"
| "binary_op_map Mult = Some (\<lambda>x y. Inr (fmul x y))"
| "binary_op_map Div = Some truediv"
| "binary_op_map _ = None"

text \<open>
  The branches are in the order of the source. An exception of an operand leaves the
  function at once; the left operand of a binary operation is evaluated before the right
  one; only \<^verbatim>\<open>ZeroDivisionError\<close> is caught and turned into a \<^verbatim>\<open>ValueError\<close>.
\<close>

fun eval :: "ast \<Rightarrow> exn + float" where
  "eval (Expression body) = eval body"
| "eval (Constant v) = float_of_constant v"
| "eval (UnaryOp op operand) =
     (case unary_op_map op of
        None \<Rightarrow> Inl (ValueError ''Invalid expression'')
      | Some f \<Rightarrow>
          (case eval operand of
             Inl e \<Rightarrow> Inl e
           | Inr x \<Rightarrow> Inr (f x)))"
| "eval (BinOp left op right) =
     (case binary_op_map op of
        None \<Rightarrow> Inl (ValueError ''Invalid expression'')
      | Some f \<Rightarrow>
          (case eval left of
             Inl e \<Rightarrow> Inl e
           | Inr x \<Rightarrow>
               (case eval right of
                  Inl e \<Rightarrow> Inl e
                | Inr y \<Rightarrow>
                    (case f x y of
                       Inl ZeroDivisionError \<Rightarrow> Inl (ValueError ''Cannot divide by zero'')
                     | r \<Rightarrow> r))))"
| "eval _ = Inl (ValueError ''Invalid expression'')"

subsection \<open>\<^verbatim>\<open>str\<close> of an integer and of a float\<close>

definition digit_char :: "int \<Rightarrow> char" where
  "digit_char d = ''0123456789'' ! nat d"

function digits :: "int \<Rightarrow> string" where
  \<comment> \<open>the decimal digits of \<open>n \<ge> 0\<close>\<close>
  "digits n = (if n < 10 then [digit_char n] else digits (n div 10) @ [digit_char (n mod 10)])"
  by pat_completeness auto
termination
  by (relation "measure nat") auto

definition str_int :: "int \<Rightarrow> string" where
  "str_int n = (if n < 0 then CHR ''-'' # digits (- n) else digits n)"

text \<open>
  \<^verbatim>\<open>str\<close> of a float is its \<^verbatim>\<open>repr\<close>: the shortest string of decimal digits that
  converts back to the same double, at most 17 of them, laid out with a decimal point, or
  with an exponent when the decimal point would be far from the digits (\<^verbatim>\<open>float_repr_style\<close>
  \<^verbatim>\<open>'short'\<close> of CPython). A decimal \<open>c * 10\<^sup>u\<close> is the pair \<open>(c, u)\<close>.
\<close>

definition scale10 :: "int \<Rightarrow> int \<Rightarrow> int" where
  \<comment> \<open>\<open>n * 10\<^sup>k\<close> for \<open>k \<ge> 0\<close>, \<open>n\<close> itself for \<open>k < 0\<close>\<close>
  "scale10 n k = n * 10 ^ nat k"

definition round_decimal :: "bool \<Rightarrow> int \<Rightarrow> int \<Rightarrow> float" where
  \<comment> \<open>the double nearest to \<open>(-1)\<^sup>s * c * 10\<^sup>u\<close>\<close>
  "round_decimal s c u = round_ratio s (scale10 c u) (scale10 1 (- u))"

definition floor_log10 :: "int \<Rightarrow> int \<Rightarrow> int" where
  \<comment> \<open>\<open>\<lfloor>log\<^sub>1\<^sub>0 (n / d)\<rfloor>\<close> for \<open>n, d > 0\<close>\<close>
  "floor_log10 n d =
     (let k = int (length (digits n)) - int (length (digits d))
      in if scale10 d k \<le> scale10 n (- k) then k else k - 1)"

definition nearest_decimals :: "int \<Rightarrow> int \<Rightarrow> int \<Rightarrow> (int \<times> int) list" where
  \<comment> \<open>the two decimals of \<open>p\<close> digits around \<open>n / d\<close>, the nearer one first\<close>
  "nearest_decimals p n d =
     (let u = floor_log10 n d - p + 1;
          lo = scale10 n (- u) div scale10 d u;
          r = scale10 n (- u) mod scale10 d u;
          up = (if scale10 d u = 2 * r then odd lo else scale10 d u < 2 * r)
      in if up then [(lo + 1, u), (lo, u)] else [(lo, u), (lo + 1, u)])"

fun shortest_decimal :: "nat \<Rightarrow> int \<Rightarrow> int \<Rightarrow> int \<Rightarrow> int \<times> int" where
  "shortest_decimal 0 p m e = hd (nearest_decimals p (shift m e) (shift 1 (- e)))"
| "shortest_decimal (Suc k) p m e =
     (case filter (\<lambda>(c, u). round_decimal False c u = Finite False m e)
             (nearest_decimals p (shift m e) (shift 1 (- e))) of
        [] \<Rightarrow> shortest_decimal k (p + 1) m e
      | cu # _ \<Rightarrow> cu)"

definition exponent_str :: "int \<Rightarrow> string" where
  "exponent_str x =
     (if x < 0 then ''-'' else ''+'') @ (if \<bar>x\<bar> < 10 then ''0'' else []) @ digits \<bar>x\<bar>"

definition format_repr :: "string \<Rightarrow> int \<Rightarrow> string" where
  \<comment> \<open>the layout of the digits \<open>ds\<close> of the number \<open>0.ds * 10\<^sup>d\<^sup>e\<^sup>c\<^sup>p\<^sup>t\<close>\<close>
  "format_repr ds decpt =
     (if decpt \<le> - 4 \<or> 16 < decpt then
        take 1 ds @ (if length ds \<le> 1 then [] else ''.'' @ drop 1 ds)
          @ ''e'' @ exponent_str (decpt - 1)
      else if decpt \<le> 0 then ''0.'' @ replicate (nat (- decpt)) CHR ''0'' @ ds
      else if decpt < int (length ds) then take (nat decpt) ds @ ''.'' @ drop (nat decpt) ds
      else ds @ replicate (nat (decpt - int (length ds))) CHR ''0'' @ ''.0'')"

fun float_str :: "float \<Rightarrow> string" where
  "float_str NaN = ''nan''"
| "float_str (Infinity s) = (if s then ''-inf'' else ''inf'')"
| "float_str (Finite s m e) =
     (if s then ''-'' else []) @
     (if m = 0 then ''0.0''
      else let (c, u) = shortest_decimal 16 1 m e;
               ds = digits c
           in format_repr (rev (dropWhile (\<lambda>x. x = CHR ''0'') (rev ds))) (int (length ds) + u))"

subsection \<open>The calculator and its methods\<close>

text \<open>
  The state is the text of the display; the error dialogs that
  \<^verbatim>\<open>messagebox.showerror\<close> has shown are recorded as a list of title and message. A
  method takes the state and returns the state together with its result or the
  exception that left it.
\<close>

record calculator =
  display_var :: string
  shown_errors :: "(string \<times> string) list"

type_synonym 'a operation = "calculator \<Rightarrow> (exn + 'a) \<times> calculator"

definition showerror :: "string \<Rightarrow> string \<Rightarrow> unit operation" where
  "showerror title message s = (Inr (), s\<lparr>shown_errors := shown_errors s @ [(title, message)]\<rparr>)"

definition format_number :: "float \<Rightarrow> string operation" where
  "format_number v s =
     (if is_integer v then
        (case int_of_float v of
           Inl e \<Rightarrow> (Inl e, s)
         | Inr n \<Rightarrow> (Inr (str_int n), s))
      else (Inr (float_str v), s))"

text \<open>
  \<^verbatim>\<open>ast.parse\<close> is the parser of the Python interpreter, not code of the program: the
  methods take it as the parameter \<open>parse\<close>, a function from the source text to a tree or
  an exception. \<^verbatim>\<open>_safe_evaluate\<close> turns its \<^verbatim>\<open>SyntaxError\<close> into a \<^verbatim>\<open>ValueError\<close>.
\<close>

definition safe_evaluate :: "(string \<Rightarrow> exn + ast) \<Rightarrow> string \<Rightarrow> float operation" where
  "safe_evaluate parse expression s =
     (case parse expression of
        Inl SyntaxError \<Rightarrow> (Inl (ValueError ''Invalid expression''), s)
      | Inl e \<Rightarrow> (Inl e, s)
      | Inr node \<Rightarrow> (eval node, s))"

text \<open>
  The three actions. Each catches \<^verbatim>\<open>ValueError\<close> around the call of
  \<^verbatim>\<open>_safe_evaluate\<close> only; any other exception leaves the method.
\<close>

definition set_display :: "(exn + string) \<times> calculator \<Rightarrow> (exn + unit) \<times> calculator" where
  \<comment> \<open>\<^verbatim>\<open>self.display_var.set(...)\<close> on the result of \<^verbatim>\<open>_format_number\<close>\<close>
  "set_display r =
     (case r of
        (Inl e, s) \<Rightarrow> (Inl e, s)
      | (Inr formatted, s) \<Rightarrow> (Inr (), s\<lparr>display_var := formatted\<rparr>))"

definition negate :: "(string \<Rightarrow> exn + ast) \<Rightarrow> unit operation" where
  "negate parse s =
     (let current = display_var s
      in if current = [] then (Inr (), s)
         else case safe_evaluate parse current s of
                (Inl (ValueError message), s1) \<Rightarrow> showerror ''Error'' message s1
              | (Inl e, s1) \<Rightarrow> (Inl e, s1)
              | (Inr v, s1) \<Rightarrow> set_display (format_number (fneg v) s1))"

definition percent :: "(string \<Rightarrow> exn + ast) \<Rightarrow> unit operation" where
  "percent parse s =
     (let current = display_var s
      in if current = [] then (Inr (), s)
         else case safe_evaluate parse current s of
                (Inl (ValueError message), s1) \<Rightarrow> showerror ''Error'' message s1
              | (Inl e, s1) \<Rightarrow> (Inl e, s1)
              | (Inr v, s1) \<Rightarrow>
                  (case float_of_int 100 of
                     Inl e \<Rightarrow> (Inl e, s1)
                   | Inr hundred \<Rightarrow>
                       (case truediv v hundred of
                          Inl e \<Rightarrow> (Inl e, s1)
                        | Inr w \<Rightarrow> set_display (format_number w s1))))"

definition calculate :: "(string \<Rightarrow> exn + ast) \<Rightarrow> unit operation" where
  "calculate parse s =
     (let expression = display_var s
      in if expression = [] then (Inr (), s)
         else case safe_evaluate parse expression s of
                (Inl (ValueError message), s1) \<Rightarrow> showerror ''Error'' message s1
              | (Inl e, s1) \<Rightarrow> (Inl e, s1)
              | (Inr result, s1) \<Rightarrow> set_display (format_number result s1))"

subsection \<open>A model of \<^verbatim>\<open>ast.parse(source, mode="eval")\<close> on arithmetic text\<close>

text \<open>
  For statements about particular texts, the parser of CPython is modelled on a fragment
  of its input: text made of decimal numbers (with a fraction and an exponent), names,
  the operators \<^verbatim>\<open>+ - * / ** //\<close>, the dot, parentheses and spaces. The outcome of the
  model is a tree, \<open>Rejected\<close> where CPython raises \<^verbatim>\<open>SyntaxError\<close>, or \<open>Unmodelled\<close>
  where the text leaves the fragment (any other character, a keyword other than
  \<^verbatim>\<open>True\<close>, \<^verbatim>\<open>False\<close> and \<^verbatim>\<open>None\<close>, a letter or an underscore right after a number, a
  starred argument): there the model says nothing.
\<close>

datatype 'a outcome = Parsed 'a | Rejected | Unmodelled

datatype token =
  TNumber pyvalue | TName string
  | TPlus | TMinus | TStar | TSlash | TDoubleStar | TDoubleSlash
  | TLPar | TRPar | TDot | TEllipsis

definition is_digit :: "char \<Rightarrow> bool" where
  "is_digit c = (c \<in> set ''0123456789'')"

definition is_name_start :: "char \<Rightarrow> bool" where
  "is_name_start c =
     (c \<in> set ''abcdefghijklmnopqrstuvwxyz'' \<or> c \<in> set ''ABCDEFGHIJKLMNOPQRSTUVWXYZ'' \<or> c = CHR ''_'')"

definition is_name_char :: "char \<Rightarrow> bool" where
  "is_name_char c = (is_name_start c \<or> is_digit c)"

definition python_keywords :: "string list" where
  "python_keywords =
     [''and'', ''as'', ''assert'', ''async'', ''await'', ''break'', ''class'', ''continue'',
      ''def'', ''del'', ''elif'', ''else'', ''except'', ''finally'', ''for'', ''from'',
      ''global'', ''if'', ''import'', ''in'', ''is'', ''lambda'', ''nonlocal'', ''not'', ''or'',
      ''pass'', ''raise'', ''return'', ''try'', ''while'', ''with'', ''yield'']"

definition digit_value :: "char \<Rightarrow> int" where
  "digit_value c = int (length (takeWhile (\<lambda>d. d \<noteq> c) ''0123456789''))"

definition decimal_value :: "string \<Rightarrow> int" where
  "decimal_value ds = foldl (\<lambda>n c. 10 * n + digit_value c) 0 ds"

text \<open>
  A number: digits, then a fraction, then an exponent. Without fraction and exponent it
  is an integer, which must not have a leading zero unless it is zero; otherwise it is
  a float, the double nearest to the decimal written (an infinity when that is out of
  range). The text starts with a digit, or with a dot and a digit.
\<close>

definition lex_exponent :: "string \<Rightarrow> (int option \<times> string) outcome" where
  "lex_exponent cs =
     (case cs of
        c # r \<Rightarrow>
          if c = CHR ''e'' \<or> c = CHR ''E'' then
            (let negative = (take 1 r = ''-'');
                 r' = (if take 1 r = ''-'' \<or> take 1 r = ''+'' then drop 1 r else r);
                 ds = takeWhile is_digit r'
             in if ds = [] then Unmodelled
                else Parsed (Some (if negative then - decimal_value ds else decimal_value ds),
                             dropWhile is_digit r'))
          else Parsed (None, cs)
      | [] \<Rightarrow> Parsed (None, cs))"

definition lex_number :: "string \<Rightarrow> (pyvalue \<times> string) outcome" where
  "lex_number cs =
     (let whole = takeWhile is_digit cs;
          r = dropWhile is_digit cs;
          point = (take 1 r = ''.'');
          fraction = (if point then takeWhile is_digit (drop 1 r) else []);
          r' = (if point then dropWhile is_digit (drop 1 r) else r)
      in case lex_exponent r' of
           Parsed (exponent, rest) \<Rightarrow>
             if list_ex is_name_start (take 1 rest) then Unmodelled
             else if point \<or> (case exponent of None \<Rightarrow> False | Some x \<Rightarrow> True) then
               Parsed (CFloat (round_decimal False (decimal_value (whole @ fraction))
                                 ((case exponent of None \<Rightarrow> 0 | Some x \<Rightarrow> x)
                                  - int (length fraction))),
                       rest)
             else if take 1 whole = ''0'' \<and> 0 < decimal_value whole then Rejected
             else Parsed (CInt (decimal_value whole), rest)
         | Rejected \<Rightarrow> Rejected
         | Unmodelled \<Rightarrow> Unmodelled)"

definition word_token :: "string \<Rightarrow> token outcome" where
  "word_token w =
     (if w = ''True'' then Parsed (TNumber (CBool True))
      else if w = ''False'' then Parsed (TNumber (CBool False))
      else if w = ''None'' then Parsed (TNumber CNone)
      else if w \<in> set python_keywords then Unmodelled
      else Parsed (TName w))"

definition and_then :: "token outcome \<Rightarrow> token list outcome \<Rightarrow> token list outcome" where
  "and_then t ts =
     (case t of
        Parsed x \<Rightarrow> (case ts of Parsed xs \<Rightarrow> Parsed (x # xs) | Rejected \<Rightarrow> Rejected
                      | Unmodelled \<Rightarrow> Unmodelled)
      | Rejected \<Rightarrow> Rejected
      | Unmodelled \<Rightarrow> Unmodelled)"

text \<open>
  The tokens of a text. The first argument bounds the number of steps; the length of the
  text is enough, since every step takes at least one character.
\<close>

fun tokens :: "nat \<Rightarrow> string \<Rightarrow> token list outcome" where
  "tokens n [] = Parsed []"
| "tokens 0 (c # cs) = Unmodelled"
| "tokens (Suc n) (c # cs) =
     (if c = CHR '' '' then tokens n cs
      else if is_digit c \<or> (c = CHR ''.'' \<and> list_ex is_digit (take 1 cs)) then
        (case lex_number (c # cs) of
           Parsed (v, rest) \<Rightarrow> and_then (Parsed (TNumber v)) (tokens n rest)
         | Rejected \<Rightarrow> Rejected
         | Unmodelled \<Rightarrow> Unmodelled)
      else if is_name_start c then
        and_then (word_token (c # takeWhile is_name_char cs)) (tokens n (dropWhile is_name_char cs))
      else if c = CHR ''.'' then
        (if take 2 cs = ''..'' then and_then (Parsed TEllipsis) (tokens n (drop 2 cs))
         else and_then (Parsed TDot) (tokens n cs))
      else if c = CHR ''*'' then
        (if take 1 cs = ''*'' then and_then (Parsed TDoubleStar) (tokens n (drop 1 cs))
         else and_then (Parsed TStar) (tokens n cs))
      else if c = CHR ''/'' then
        (if take 1 cs = ''/'' then and_then (Parsed TDoubleSlash) (tokens n (drop 1 cs))
         else and_then (Parsed TSlash) (tokens n cs))
      else if c = CHR ''+'' then and_then (Parsed TPlus) (tokens n cs)
      else if c = CHR ''-'' then and_then (Parsed TMinus) (tokens n cs)
      else if c = CHR ''('' then and_then (Parsed TLPar) (tokens n cs)
      else if c = CHR '')'' then and_then (Parsed TRPar) (tokens n cs)
      else Unmodelled)"

text \<open>
  The grammar of Python expressions, on these tokens:
  \<^verbatim>\<open>sum: sum ('+'|'-') term | term\<close>,
  \<^verbatim>\<open>term: term ('*'|'/'|'//') factor | factor\<close>,
  \<^verbatim>\<open>factor: ('+'|'-') factor | power\<close>,
  \<^verbatim>\<open>power: primary '**' factor | primary\<close>,
  \<^verbatim>\<open>primary: primary '.' NAME | primary '(' [expression] ')' | atom\<close>,
  \<^verbatim>\<open>atom: NAME | NUMBER | '...' | '(' ')' | '(' expression ')'\<close>.
  Parentheses group and leave no node in the tree. There is one level of the parser for
  each rule; the levels \<open>Sum_rest\<close>, \<open>Term_rest\<close> and \<open>Trailers\<close> continue a rule after
  the tree given with them. The parser returns the tree and the tokens that follow it;
  its first argument bounds the depth of the calls.
\<close>

type_synonym parsed = "(ast \<times> token list) outcome"

definition sum_operator :: "token \<Rightarrow> operator option" where
  "sum_operator t = (if t = TPlus then Some Add else if t = TMinus then Some Sub else None)"

definition term_operator :: "token \<Rightarrow> operator option" where
  "term_operator t =
     (if t = TStar then Some Mult else if t = TSlash then Some Div
      else if t = TDoubleSlash then Some FloorDiv else None)"

definition sign_operator :: "token \<Rightarrow> unaryop option" where
  "sign_operator t = (if t = TPlus then Some UAdd else if t = TMinus then Some USub else None)"

definition closing :: "parsed \<Rightarrow> parsed" where
  \<comment> \<open>the closing parenthesis after an expression\<close>
  "closing r =
     (case r of
        Parsed (node, ts) \<Rightarrow> if take 1 ts = [TRPar] then Parsed (node, drop 1 ts) else Rejected
      | Rejected \<Rightarrow> Rejected
      | Unmodelled \<Rightarrow> Unmodelled)"

datatype level =
  Sum | Sum_rest ast | Term | Term_rest ast | Factor | Power | Trailers ast | Atom

primrec parse_level :: "nat \<Rightarrow> level \<Rightarrow> token list \<Rightarrow> parsed" where
  "parse_level 0 lv ts = Unmodelled"
| "parse_level (Suc n) lv ts =
     (case lv of
        Sum \<Rightarrow>
          (case parse_level n Term ts of
             Parsed (left, r) \<Rightarrow> parse_level n (Sum_rest left) r
           | Rejected \<Rightarrow> Rejected
           | Unmodelled \<Rightarrow> Unmodelled)
      | Sum_rest left \<Rightarrow>
          (case ts of
             [] \<Rightarrow> Parsed (left, ts)
           | t # r \<Rightarrow>
               (case sum_operator t of
                  None \<Rightarrow> Parsed (left, ts)
                | Some op \<Rightarrow>
                    (case parse_level n Term r of
                       Parsed (right, r') \<Rightarrow> parse_level n (Sum_rest (BinOp left op right)) r'
                     | Rejected \<Rightarrow> Rejected
                     | Unmodelled \<Rightarrow> Unmodelled)))
      | Term \<Rightarrow>
          (case parse_level n Factor ts of
             Parsed (left, r) \<Rightarrow> parse_level n (Term_rest left) r
           | Rejected \<Rightarrow> Rejected
           | Unmodelled \<Rightarrow> Unmodelled)
      | Term_rest left \<Rightarrow>
          (case ts of
             [] \<Rightarrow> Parsed (left, ts)
           | t # r \<Rightarrow>
               (case term_operator t of
                  None \<Rightarrow> Parsed (left, ts)
                | Some op \<Rightarrow>
                    (case parse_level n Factor r of
                       Parsed (right, r') \<Rightarrow> parse_level n (Term_rest (BinOp left op right)) r'
                     | Rejected \<Rightarrow> Rejected
                     | Unmodelled \<Rightarrow> Unmodelled)))
      | Factor \<Rightarrow>
          (case ts of
             [] \<Rightarrow> Rejected
           | t # r \<Rightarrow>
               (case sign_operator t of
                  None \<Rightarrow> parse_level n Power ts
                | Some op \<Rightarrow>
                    (case parse_level n Factor r of
                       Parsed (operand, r') \<Rightarrow> Parsed (UnaryOp op operand, r')
                     | Rejected \<Rightarrow> Rejected
                     | Unmodelled \<Rightarrow> Unmodelled)))
      | Power \<Rightarrow>
          (case parse_level n Atom ts of
             Parsed (a, r) \<Rightarrow>
               (case parse_level n (Trailers a) r of
                  Parsed (base, r') \<Rightarrow>
                    if take 1 r' = [TDoubleStar] then
                      (case parse_level n Factor (drop 1 r') of
                         Parsed (exponent, r'') \<Rightarrow> Parsed (BinOp base Pow exponent, r'')
                       | Rejected \<Rightarrow> Rejected
                       | Unmodelled \<Rightarrow> Unmodelled)
                    else Parsed (base, r')
                | Rejected \<Rightarrow> Rejected
                | Unmodelled \<Rightarrow> Unmodelled)
           | Rejected \<Rightarrow> Rejected
           | Unmodelled \<Rightarrow> Unmodelled)
      | Trailers node \<Rightarrow>
          (if take 1 ts = [TDot] then
             (case drop 1 ts of
                [] \<Rightarrow> Rejected
              | t # r \<Rightarrow>
                  (case t of
                     TName x \<Rightarrow> parse_level n (Trailers (Attribute node x)) r
                   | _ \<Rightarrow> Rejected))
           else if take 1 ts = [TLPar] then
             (if take 1 (drop 1 ts) = [TRPar] then parse_level n (Trailers (Call node [])) (drop 2 ts)
              else if take 1 (drop 1 ts) = [TStar] \<or> take 1 (drop 1 ts) = [TDoubleStar]
              then Unmodelled
              else
                (case closing (parse_level n Sum (drop 1 ts)) of
                   Parsed (argument, r) \<Rightarrow> parse_level n (Trailers (Call node [argument])) r
                 | Rejected \<Rightarrow> Rejected
                 | Unmodelled \<Rightarrow> Unmodelled))
           else Parsed (node, ts))
      | Atom \<Rightarrow>
          (case ts of
             [] \<Rightarrow> Rejected
           | t # r \<Rightarrow>
               (case t of
                  TNumber v \<Rightarrow> Parsed (Constant v, r)
                | TName x \<Rightarrow> Parsed (Name x, r)
                | TEllipsis \<Rightarrow> Parsed (Constant CEllipsis, r)
                | TLPar \<Rightarrow>
                    if take 1 r = [TRPar] then Parsed (Tuple [], drop 1 r)
                    else if take 1 r = [TStar] \<or> take 1 r = [TDoubleStar] then Unmodelled
                    else closing (parse_level n Sum r)
                | _ \<Rightarrow> Rejected)))"

text \<open>
  The whole text must be one expression. Text that starts with a space is rejected
  (\<^verbatim>\<open>IndentationError\<close>, a subclass of \<^verbatim>\<open>SyntaxError\<close>), and so is the empty text.
  A chain of calls is at most eight levels long for each token.
\<close>

definition parse_expression :: "string \<Rightarrow> ast outcome" where
  "parse_expression source =
     (if take 1 source = '' '' then Rejected
      else case tokens (length source) source of
             Parsed ts \<Rightarrow>
               (case parse_level (8 * Suc (length ts)) Sum ts of
                  Parsed (node, r) \<Rightarrow> if r = [] then Parsed (Expression node) else Rejected
                | Rejected \<Rightarrow> Rejected
                | Unmodelled \<Rightarrow> Unmodelled)
           | Rejected \<Rightarrow> Rejected
           | Unmodelled \<Rightarrow> Unmodelled)"

definition ast_parse :: "string \<Rightarrow> exn + ast" where
  "ast_parse source =
     (case parse_expression source of
        Parsed node \<Rightarrow> Inr node
      | Rejected \<Rightarrow> Inl SyntaxError
      | Unmodelled \<Rightarrow> undefined)"

subsection \<open>Two predicates on trees\<close>



section \<open>Properties\<close>

subsection \<open>The walk over the tree\<close>

lemma unary_op_map_cases:
  "unary_op_map op = (if op = UAdd then Some (\<lambda>x. x) else if op = USub then Some fneg else None)"
  by (cases op) simp_all

lemma binary_op_map_None: "(binary_op_map op = None) = (op \<notin> {Add, Sub, Mult, Div})"
  by (cases op) simp_all




lemma safe_evaluate_state: "snd (safe_evaluate parse expression s) = s"
  by (simp add: safe_evaluate_def split: sum.splits exn.splits)

lemma safe_evaluate_result:
  "fst (safe_evaluate parse expression s) =
     (case parse expression of
        Inl SyntaxError \<Rightarrow> Inl (ValueError ''Invalid expression'')
      | Inl e \<Rightarrow> Inl e
      | Inr node \<Rightarrow> eval node)"
  by (simp add: safe_evaluate_def split: sum.splits exn.splits)


subsection \<open>Particular texts and numbers\<close>

lemma parse_empty: "ast_parse '''' = Inl SyntaxError"
  by code_simp













section \<open>The claims\<close>








text \<open>
  C5, at an input where the program misses it: with the integer \<open>2 * 10\<^sup>3\<^sup>0\<^sup>8\<close> in the
  display (the digit 2 and 308 zeros), the \<^verbatim>\<open>=\<close> action fails in \<^verbatim>\<open>float(node.value)\<close>
  with \<^verbatim>\<open>OverflowError\<close>, which \<^verbatim>\<open>_safe_evaluate\<close> does not turn into a
  \<^verbatim>\<open>ValueError\<close> and \<^verbatim>\<open>_calculate\<close> does not catch: the exception leaves the method
  and no error dialog is shown. The display is unchanged.
\<close>

theorem overflow_error_is_not_shown:
  "calculate ast_parse
     \<lparr>display_var = CHR ''2'' # replicate 308 CHR ''0'', shown_errors = []\<rparr>
   = (Inl OverflowError,
      \<lparr>display_var = CHR ''2'' # replicate 308 CHR ''0'', shown_errors = []\<rparr>)"
  by code_simp

text \<open>
  What the three actions do when the evaluation fails: the display is unchanged
  whatever the exception is, and a \<^verbatim>\<open>ValueError\<close> is shown in an error dialog with its
  message, while any other exception leaves the method unshown.
\<close>

lemma failed_action_keeps_display:
  assumes "display_var s \<noteq> []" and "fst (safe_evaluate parse (display_var s) s) = Inl e"
  shows "display_var (snd (calculate parse s)) = display_var s"
    and "display_var (snd (negate parse s)) = display_var s"
    and "display_var (snd (percent parse s)) = display_var s"
  using assms
  by (auto simp: calculate_def negate_def percent_def safe_evaluate_def showerror_def
           split: sum.splits exn.splits)

lemma value_error_is_shown:
  assumes "display_var s \<noteq> []"
    and "fst (safe_evaluate parse (display_var s) s) = Inl (ValueError message)"
  shows "calculate parse s = (Inr (), s\<lparr>shown_errors := shown_errors s @ [(''Error'', message)]\<rparr>)"
    and "negate parse s = (Inr (), s\<lparr>shown_errors := shown_errors s @ [(''Error'', message)]\<rparr>)"
    and "percent parse s = (Inr (), s\<lparr>shown_errors := shown_errors s @ [(''Error'', message)]\<rparr>)"
  using assms
  by (auto simp: calculate_def negate_def percent_def safe_evaluate_def showerror_def
           split: sum.splits exn.splits)

lemma other_error_is_not_shown:
  assumes "display_var s \<noteq> []"
    and "fst (safe_evaluate parse (display_var s) s) = Inl e"
    and "\<forall>message. e \<noteq> ValueError message"
  shows "calculate parse s = (Inl e, s)"
    and "negate parse s = (Inl e, s)"
    and "percent parse s = (Inl e, s)"
  using assms
  by (auto simp: calculate_def negate_def percent_def safe_evaluate_def showerror_def
           split: sum.splits exn.splits)

text \<open>
  C6: the evaluation of the empty text fails with the \<^verbatim>\<open>ValueError\<close>
  \<^verbatim>\<open>Invalid expression\<close>.
\<close>

theorem empty_expression_is_invalid:
  "fst (safe_evaluate ast_parse '''' s) = Inl (ValueError ''Invalid expression'')"
  by (simp add: safe_evaluate_result parse_empty)

text \<open>
  C7: \<^verbatim>\<open>_safe_evaluate\<close> leaves the state of the calculator as it found it, and its
  result, a number or an error, depends on the text alone and not on the state: two
  calls with the same text, from any two states, have the same result.
\<close>

theorem safe_evaluate_is_pure:
  "snd (safe_evaluate parse expression s) = s
   \<and> fst (safe_evaluate parse expression s) = fst (safe_evaluate parse expression s')"
  by (simp add: safe_evaluate_state safe_evaluate_result)

text \<open>
  C9: with an empty display each of the three actions returns at once, whatever the
  parser would do: no dialog is shown and the display stays empty.
\<close>

theorem empty_display_is_left_alone:
  "display_var s = [] \<Longrightarrow>
     calculate parse s = (Inr (), s) \<and> negate parse s = (Inr (), s)
     \<and> percent parse s = (Inr (), s)"
  by (simp add: calculate_def negate_def percent_def)

theorem empty_display_is_left_alone_witness:
  "display_var \<lparr>display_var = [], shown_errors = []\<rparr> = []
   \<and> calculate (\<lambda>source. Inl OverflowError) \<lparr>display_var = [], shown_errors = []\<rparr>
       = (Inr (), \<lparr>display_var = [], shown_errors = []\<rparr>)
   \<and> negate (\<lambda>source. Inl OverflowError) \<lparr>display_var = [], shown_errors = []\<rparr>
       = (Inr (), \<lparr>display_var = [], shown_errors = []\<rparr>)
   \<and> percent (\<lambda>source. Inl OverflowError) \<lparr>display_var = [], shown_errors = []\<rparr>
       = (Inr (), \<lparr>display_var = [], shown_errors = []\<rparr>)"
  using empty_display_is_left_alone [where s = "\<lparr>display_var = [], shown_errors = []\<rparr>"
      and parse = "\<lambda>source. Inl OverflowError"]
  by simp



end
